theory Spec2Isabelle
  imports Complex_Main
begin

section \<open>Damped wave animation by the finite difference method\<close>

text \<open>
  The notebook \<^verbatim>\<open>wave_animation_fdm.ipynb\<close> solves the damped wave equation on
  \<open>[0, L]\<close> by an explicit three-level finite difference scheme. Its numerical core is
  three cells: the constants cell (grid resolution and step sizes), the cell of initial and
  boundary conditions, and the time-evolution loop.

  Numbers are modelled as real numbers: the embedding describes the arithmetic the notebook
  writes down, without the rounding of IEEE doubles. Where numpy would produce an infinity
  or a NaN instead of raising (a division by a zero \<^verbatim>\<open>float64\<close>), the model
  returns the error value \<open>NonFinite\<close>, since such a run has no real-valued grid.
  The notebook's functions \<^verbatim>\<open>f\<close>, \<^verbatim>\<open>g\<close> and \<^verbatim>\<open>phi\<close> are
  applied to whole arrays; they are modelled as functions on reals applied element by
  element, which is what a function built from numpy's arithmetic does.
\<close>

subsection \<open>Errors and data\<close>

datatype error = ZeroDivisionError | ValueError | IndexError | NonFinite

text \<open>The global constants of the constants cell that the user chooses.\<close>

record params =
  L :: real
  c :: real
  k :: real
  t_total :: real
  fps_play :: real

text \<open>The values the constants cell derives from them.\<close>

record discretization =
  nx :: int
  x_array :: "real list"
  t_array :: "real list"
  dx :: real
  dt :: real

text \<open>
  The solution grid \<^verbatim>\<open>u_x_t\<close> is a two-dimensional array indexed \<^verbatim>\<open>[j, l]\<close>
  (space, time): a list of rows, one per spatial point, each row holding one value per time
  instant. The entry \<^verbatim>\<open>u_x_t[j, l]\<close> is \<open>u ! j ! l\<close>.
\<close>

type_synonym grid = "real list list"

subsection \<open>Library functions the notebook calls\<close>

text \<open>Python's \<^verbatim>\<open>int(x)\<close> on a float truncates towards zero.\<close>

definition py_int :: "real \<Rightarrow> int" where
  "py_int x = (if 0 \<le> x then \<lfloor>x\<rfloor> else \<lceil>x\<rceil>)"

text \<open>
  \<^verbatim>\<open>np.linspace(start, stop, num)\<close>: \<open>num\<close> samples \<open>start + i * step\<close> with
  \<open>step = (stop - start) / (num - 1)\<close>, the last one set to \<open>stop\<close>; a single
  sample is \<open>start\<close>; a negative \<open>num\<close> raises ValueError.
\<close>

definition linspace :: "real \<Rightarrow> real \<Rightarrow> int \<Rightarrow> error + real list" where
  "linspace start stop num =
     (if num < 0 then Inl ValueError
      else let n = nat num in
        if n = 1 then Inr [start]
        else Inr ((map (\<lambda>i. start + real i * ((stop - start) / real (n - 1))) [0..<n])
                    [n - 1 := stop]))"

text \<open>
  \<^verbatim>\<open>np.arange(start, stop, step)\<close>: \<open>ceil((stop - start) / step)\<close> samples
  (none when that is not positive) \<open>start + i * step\<close>; a zero step raises
  ZeroDivisionError.
\<close>

definition arange :: "real \<Rightarrow> real \<Rightarrow> real \<Rightarrow> error + real list" where
  "arange start stop step =
     (if step = 0 then Inl ZeroDivisionError
      else Inr (map (\<lambda>i. start + real i * step) [0..<nat \<lceil>(stop - start) / step\<rceil>]))"

text \<open>\<^verbatim>\<open>np.zeros((n, m))\<close>.\<close>

definition zeros :: "nat \<Rightarrow> nat \<Rightarrow> grid" where
  "zeros n m = replicate n (replicate m 0)"

text \<open>
  The assignment \<^verbatim>\<open>u[:, l] = v\<close>. It raises IndexError when the grid has no column
  \<open>l\<close>. (A grid of this development has at least two rows, so the rows tell the number of
  columns.) The right-hand sides assigned here are obtained by mapping over the coordinate
  arrays, so their shape always fits the target.
\<close>

definition set_col :: "nat \<Rightarrow> real list \<Rightarrow> grid \<Rightarrow> error + grid" where
  "set_col l v u =
     (if list_all (\<lambda>row. l < length row) u
      then Inr (map (\<lambda>(row, x). row[l := x]) (zip u v))
      else Inl IndexError)"

text \<open>The assignment \<^verbatim>\<open>u[j, :] = v\<close>; IndexError when there is no row \<open>j\<close>.\<close>

definition set_row :: "nat \<Rightarrow> real list \<Rightarrow> grid \<Rightarrow> error + grid" where
  "set_row j v u = (if length u \<le> j then Inl IndexError else Inr (u[j := v]))"

text \<open>The column read \<^verbatim>\<open>u[:, l]\<close> and numpy's element-wise arithmetic on vectors.\<close>

definition col :: "grid \<Rightarrow> nat \<Rightarrow> real list" where
  "col u l = map (\<lambda>row. row ! l) u"

definition vadd :: "real list \<Rightarrow> real list \<Rightarrow> real list" where
  "vadd xs ys = map (\<lambda>(x, y). x + y) (zip xs ys)"

definition vsub :: "real list \<Rightarrow> real list \<Rightarrow> real list" where
  "vsub xs ys = map (\<lambda>(x, y). x - y) (zip xs ys)"

definition smul :: "real \<Rightarrow> real list \<Rightarrow> real list" where
  "smul a xs = map (\<lambda>x. a * x) xs"

definition muls :: "real list \<Rightarrow> real \<Rightarrow> real list" where
  "muls xs a = map (\<lambda>x. x * a) xs"

text \<open>
  The assignment \<^verbatim>\<open>u[1:-1, l] = v\<close>: row \<open>j\<close> with \<open>1 \<le> j \<le> length u - 2\<close>
  receives \<open>v ! (j - 1)\<close> in column \<open>l\<close>; the first and the last row are not part of
  the slice.
\<close>

definition set_interior_col :: "nat \<Rightarrow> real list \<Rightarrow> grid \<Rightarrow> grid" where
  "set_interior_col l v u =
     map (\<lambda>j. if 1 \<le> j \<and> j + 1 < length u then (u ! j)[l := v ! (j - 1)] else u ! j)
       [0..<length u]"

subsection \<open>The constants cell\<close>

text \<open>
  \<^verbatim>\<open>
  nx = int(L / (c / fps_play)) # CFL condition with equality
  x_array = np.linspace(0, L, nx)
  t_array = np.arange(0, t_total, 1/fps_play)
  dx = x_array[1] - x_array[0]
  dt = t_array[1] - t_array[0]
  \<close>
  Python raises ZeroDivisionError for a division by a zero number, numpy raises ValueError
  for a negative number of samples, and reading index 1 of an array with fewer than two
  elements raises IndexError.

  The quotient \<open>L / (c / fps_play)\<close> and the number of time instants are those of exact
  arithmetic. In doubles a quotient next to an integer can round to the other side of it,
  which moves \<open>nx\<close> or the length of \<open>t_array\<close> by one, and a quotient that overflows
  makes \<^verbatim>\<open>int\<close> raise OverflowError; real numbers have neither. The properties
  below therefore speak about the discretization that a run returns, or about the signs of
  the inputs, and not about where exactly the rounded quotient falls.
\<close>

definition constants_cell :: "params \<Rightarrow> error + discretization" where
  "constants_cell p =
     (if fps_play p = 0 then Inl ZeroDivisionError
      else if c p / fps_play p = 0 then Inl ZeroDivisionError
      else
        let n = py_int (L p / (c p / fps_play p)) in
        case linspace 0 (L p) n of
          Inl e \<Rightarrow> Inl e
        | Inr xs \<Rightarrow>
           (case arange 0 (t_total p) (1 / fps_play p) of
              Inl e \<Rightarrow> Inl e
            | Inr ts \<Rightarrow>
               if length xs < 2 then Inl IndexError
               else if length ts < 2 then Inl IndexError
               else Inr \<lparr>nx = n, x_array = xs, t_array = ts,
                          dx = xs ! 1 - xs ! 0, dt = ts ! 1 - ts ! 0\<rparr>))"

text \<open>
  The Courant number \<open>c * dt / dx\<close> of the CFL condition, which the notebook's
  text and the comment on \<^verbatim>\<open>nx\<close> intend to be 1 (its square is the
  \<^verbatim>\<open>factor2\<close> of the time-evolution loop).
\<close>

definition courant :: "params \<Rightarrow> discretization \<Rightarrow> real" where
  "courant p d = c p * dt d / dx d"

subsection \<open>The cell of initial and boundary conditions\<close>

text \<open>
  \<^verbatim>\<open>
  u_x_t = np.zeros((len(x_array), len(t_array)))
  u_x_t[:, 0] = f(x_array)
  u_x_t[:, 1] = g(x_array)*dt + f(x_array)
  u_x_t[0, :] = phi(t_array)
  \<close>
\<close>

definition conditions_cell ::
  "(real \<Rightarrow> real) \<Rightarrow> (real \<Rightarrow> real) \<Rightarrow> (real \<Rightarrow> real) \<Rightarrow> discretization \<Rightarrow> error + grid" where
  "conditions_cell f g phi d =
     (case set_col 0 (map f (x_array d)) (zeros (length (x_array d)) (length (t_array d))) of
        Inl e \<Rightarrow> Inl e
      | Inr u1 \<Rightarrow>
         (case set_col 1 (vadd (muls (map g (x_array d)) (dt d)) (map f (x_array d))) u1 of
            Inl e \<Rightarrow> Inl e
          | Inr u2 \<Rightarrow> set_row 0 (map phi (t_array d)) u2))"

subsection \<open>The time-evolution loop\<close>

text \<open>
  \<^verbatim>\<open>
  factor1 = (1 + k*dt/2)**-1
  factor2 = (c*dt/dx)**2
  factor3 = k*dt/2
  for l in range(1, len(t_array)-1):
      u_x_t[1:-1, l+1] = factor1 * (
          factor2 * (u_x_t[2:, l] - 2*u_x_t[1:-1, l] + u_x_t[:-2, l])
          + 2*u_x_t[1:-1, l] - u_x_t[1:-1, l-1] + factor3 * u_x_t[1:-1, l-1]
      )
  \<close>
  The right-hand side is evaluated on the whole slices first and assigned afterwards. The
  slices \<^verbatim>\<open>[2:]\<close>, \<^verbatim>\<open>[1:-1]\<close> and \<^verbatim>\<open>[:-2]\<close> of a vector of length
  \<open>n\<close> are \<open>drop 2\<close>, \<open>drop 1 \<circ> take (n - 1)\<close> and \<open>take (n - 2)\<close>.
\<close>

definition update_rhs :: "real \<Rightarrow> real \<Rightarrow> real \<Rightarrow> grid \<Rightarrow> nat \<Rightarrow> real list" where
  "update_rhs factor1 factor2 factor3 u l =
     (let n = length u;
          up = drop 2 (col u l);
          mid = drop 1 (take (n - 1) (col u l));
          down = take (n - 2) (col u l);
          prev = drop 1 (take (n - 1) (col u (l - 1)))
      in smul factor1
           (vadd (vsub (vadd (smul factor2 (vadd (vsub up (smul 2 mid)) down)) (smul 2 mid)) prev)
                 (smul factor3 prev)))"

text \<open>
  One pass of the loop body. The loop variable ranges over \<open>1 \<le> l < len(t_array) - 1\<close>,
  so the columns \<open>l - 1\<close>, \<open>l\<close> and \<open>l + 1\<close> it touches exist.
\<close>

definition step :: "real \<Rightarrow> real \<Rightarrow> real \<Rightarrow> nat \<Rightarrow> grid \<Rightarrow> grid" where
  "step factor1 factor2 factor3 l u =
     set_interior_col (l + 1) (update_rhs factor1 factor2 factor3 u l) u"

text \<open>
  The loop run over the indices \<open>1 \<le> l < m\<close>; the whole loop is \<open>m = len(t_array) - 1\<close>,
  a smaller \<open>m\<close> is the loop stopped early.
\<close>

definition evolve :: "real \<Rightarrow> real \<Rightarrow> real \<Rightarrow> nat \<Rightarrow> grid \<Rightarrow> grid" where
  "evolve factor1 factor2 factor3 m u = fold (step factor1 factor2 factor3) [1..<m] u"

definition factor1 :: "params \<Rightarrow> discretization \<Rightarrow> real" where
  "factor1 p d = 1 / (1 + k p * dt d / 2)"

definition factor2 :: "params \<Rightarrow> discretization \<Rightarrow> real" where
  "factor2 p d = (c p * dt d / dx d)\<^sup>2"

definition factor3 :: "params \<Rightarrow> discretization \<Rightarrow> real" where
  "factor3 p d = k p * dt d / 2"

text \<open>
  The three factors are computed once, before the loop. A zero \<open>1 + k*dt/2\<close> or a zero
  \<open>dx\<close> makes numpy produce an infinite factor there without raising, and the loop
  then writes infinities and NaNs. Such a factor is not a real number: the model stops with
  \<open>NonFinite\<close> and says nothing about these runs. They need \<open>k * dt = - 2\<close>, which
  a damping coefficient \<open>k \<ge> 0\<close> with \<open>dt > 0\<close> excludes; \<open>dx\<close> is never zero
  after the constants cell has succeeded.
\<close>

definition time_evolution :: "params \<Rightarrow> discretization \<Rightarrow> grid \<Rightarrow> error + grid" where
  "time_evolution p d u =
     (if 1 + k p * dt d / 2 = 0 then Inl NonFinite
      else if dx d = 0 then Inl NonFinite
      else Inr (evolve (factor1 p d) (factor2 p d) (factor3 p d) (length (t_array d) - 1) u))"

subsection \<open>The whole run\<close>

definition run ::
  "params \<Rightarrow> (real \<Rightarrow> real) \<Rightarrow> (real \<Rightarrow> real) \<Rightarrow> (real \<Rightarrow> real) \<Rightarrow> error + discretization \<times> grid" where
  "run p f g phi =
     (case constants_cell p of
        Inl e \<Rightarrow> Inl e
      | Inr d \<Rightarrow>
         (case conditions_cell f g phi d of
            Inl e \<Rightarrow> Inl e
          | Inr u0 \<Rightarrow>
             (case time_evolution p d u0 of
                Inl e \<Rightarrow> Inl e
              | Inr u \<Rightarrow> Inr (d, u))))"

subsection \<open>Shape of a grid\<close>

text \<open>A grid has shape \<open>(n, m)\<close> when it has \<open>n\<close> rows of \<open>m\<close> entries each.\<close>

definition shape :: "nat \<Rightarrow> nat \<Rightarrow> grid \<Rightarrow> bool" where
  "shape n m u \<longleftrightarrow> length u = n \<and> list_all (\<lambda>row. length row = m) u"

subsection \<open>Concrete inputs\<close>

text \<open>The constants of the notebook as it stands.\<close>

definition notebook_params :: params where
  "notebook_params = \<lparr>L = 3, c = 1, k = 1 / 5, t_total = 20, fps_play = 30\<rparr>"

text \<open>
  Small inputs on which the cells are evaluated below: a three-by-four grid with initial
  and boundary data that disagree at the corners, a grid with two spatial points only, and a
  negative domain length.
\<close>

definition ex_params :: params where
  "ex_params = \<lparr>L = 3, c = 1, k = 1 / 5, t_total = 4, fps_play = 1\<rparr>"

definition ex_f :: "real \<Rightarrow> real" where
  "ex_f x = x"

definition ex_g :: "real \<Rightarrow> real" where
  "ex_g x = 1"

definition ex_phi :: "real \<Rightarrow> real" where
  "ex_phi t = 7 + t"

definition ex_phi' :: "real \<Rightarrow> real" where
  "ex_phi' t = 2 * t"

definition zero_fun :: "real \<Rightarrow> real" where
  "zero_fun x = 0"

definition ex_discretization :: discretization where
  "ex_discretization =
     \<lparr>nx = 3, x_array = [0, 3 / 2, 3], t_array = [0, 1, 2, 3], dx = 3 / 2, dt = 1\<rparr>"

definition ex_initial :: grid where
  "ex_initial = [ [7, 8, 9, 10], [3 / 2, 5 / 2, 0, 0], [3, 4, 0, 0]]"

definition ex_grid :: grid where
  "ex_grid = [ [7, 8, 9, 10], [3 / 2, 5 / 2, 1217 / 198, 152885 / 19602], [3, 4, 0, 0]]"

definition ex_grid' :: grid where
  "ex_grid' = [ [0, 2, 4, 6], [3 / 2, 5 / 2, 67 / 18, 5935 / 1782], [3, 4, 0, 0]]"

definition coarse_params :: params where
  "coarse_params = \<lparr>L = 2, c = 1, k = 1 / 5, t_total = 2, fps_play = 1\<rparr>"

definition negative_params :: params where
  "negative_params = \<lparr>L = - 3, c = 1, k = 1 / 5, t_total = 4, fps_play = 1\<rparr>"

text \<open>
  A zero wave speed, and three inputs that are not all strictly positive but on which the
  quotient \<open>L / (c / fps_play)\<close> and the product \<open>t_total * fps_play\<close> are positive:
  \<open>L\<close> and \<open>c\<close> negative, \<open>c\<close>, \<open>fps_play\<close> and \<open>t_total\<close> negative, and
  \<open>L\<close>, \<open>fps_play\<close> and \<open>t_total\<close> negative.
\<close>

definition still_params :: params where
  "still_params = \<lparr>L = 3, c = 0, k = 1 / 5, t_total = 4, fps_play = 1\<rparr>"

definition mirrored_params :: params where
  "mirrored_params = \<lparr>L = - 3, c = - 1, k = 1 / 5, t_total = 4, fps_play = 1\<rparr>"

definition reversed_params :: params where
  "reversed_params = \<lparr>L = 3, c = - 1, k = 1 / 5, t_total = - 4, fps_play = - 1\<rparr>"

definition reversed_mirrored_params :: params where
  "reversed_mirrored_params = \<lparr>L = - 3, c = 1, k = 1 / 5, t_total = - 4, fps_play = - 1\<rparr>"

section \<open>Properties\<close>

subsection \<open>The coordinate arrays\<close>

lemma linspace_length: "linspace a b n = Inr xs \<Longrightarrow> 0 \<le> n \<and> length xs = nat n"
  by (auto simp: linspace_def Let_def split: if_splits)

lemma linspace_nth:
  "linspace a b n = Inr xs \<Longrightarrow> j < length xs \<Longrightarrow> 2 \<le> length xs \<Longrightarrow>
     xs ! j = a + real j * ((b - a) / real (length xs - 1))"
  by (auto simp: linspace_def Let_def nth_list_update split: if_splits)

lemma arange_length: "arange a b s = Inr ts \<Longrightarrow> s \<noteq> 0 \<and> length ts = nat \<lceil>(b - a) / s\<rceil>"
  by (auto simp: arange_def split: if_splits)

lemma arange_nth: "arange a b s = Inr ts \<Longrightarrow> l < length ts \<Longrightarrow> ts ! l = a + real l * s"
  by (auto simp: arange_def split: if_splits)

lemma constants_cell_Inr:
  assumes "constants_cell p = Inr d"
  shows "fps_play p \<noteq> 0" and "c p \<noteq> 0"
    and "nx d = py_int (L p / (c p / fps_play p))"
    and "2 \<le> nx d"
    and "length (x_array d) = nat (nx d)"
    and "length (t_array d) = nat \<lceil>t_total p * fps_play p\<rceil>"
    and "2 \<le> length (t_array d)"
    and "dt d = 1 / fps_play p"
    and "dx d = L p / (real_of_int (nx d) - 1)"
    and "\<And>j. j < length (x_array d) \<Longrightarrow> x_array d ! j = real j * dx d"
    and "\<And>l. l < length (t_array d) \<Longrightarrow> t_array d ! l = real l * dt d"
proof -
  let ?n = "py_int (L p / (c p / fps_play p))"
  from assms have fps: "fps_play p \<noteq> 0" and cc: "c p \<noteq> 0"
    by (auto simp: constants_cell_def split: if_splits)
  from assms fps cc obtain xs ts where
    xs: "linspace 0 (L p) ?n = Inr xs" and ts: "arange 0 (t_total p) (1 / fps_play p) = Inr ts"
    and lx: "2 \<le> length xs" and lt: "2 \<le> length ts"
    and d: "d = \<lparr>nx = ?n, x_array = xs, t_array = ts, dx = xs ! 1 - xs ! 0, dt = ts ! 1 - ts ! 0\<rparr>"
    by (auto simp: constants_cell_def Let_def split: if_splits sum.splits)
  show "fps_play p \<noteq> 0" "c p \<noteq> 0" by (rule fps, rule cc)
  show n: "nx d = ?n" by (simp add: d)
  have len: "length xs = nat ?n" and n0: "0 \<le> ?n" using linspace_length[OF xs] by simp_all
  show "2 \<le> nx d" using lx len n by simp
  show "length (x_array d) = nat (nx d)" by (simp add: d len)
  show "length (t_array d) = nat \<lceil>t_total p * fps_play p\<rceil>"
    using arange_length[OF ts] by (simp add: d)
  show "2 \<le> length (t_array d)" using lt by (simp add: d)
  have l0: "0 < length ts" and l1: "1 < length ts" using lt by linarith+
  have "ts ! 0 = 0 + real 0 * (1 / fps_play p)" by (rule arange_nth[OF ts l0])
  then have t0: "ts ! 0 = 0" by simp
  have "ts ! 1 = 0 + real 1 * (1 / fps_play p)" by (rule arange_nth[OF ts l1])
  then have t1: "ts ! 1 = 1 / fps_play p" by simp
  show dt: "dt d = 1 / fps_play p"
    using t0 t1 by (simp add: d)
  have rl: "real (length xs - 1) = real_of_int ?n - 1"
    using lx len by (simp add: of_nat_diff)
  have k0: "0 < length xs" and k1: "1 < length xs" using lx by linarith+
  have "xs ! 0 = 0 + real 0 * ((L p - 0) / real (length xs - 1))"
    by (rule linspace_nth[OF xs k0 lx])
  then have x0: "xs ! 0 = 0" by simp
  have "xs ! 1 = 0 + real 1 * ((L p - 0) / real (length xs - 1))"
    by (rule linspace_nth[OF xs k1 lx])
  then have x1: "xs ! 1 = L p / (real_of_int ?n - 1)" unfolding rl by simp
  show dx: "dx d = L p / (real_of_int (nx d) - 1)"
    using x0 x1 by (simp add: d)
  show "x_array d ! j = real j * dx d" if "j < length (x_array d)" for j
  proof -
    from that have jl: "j < length xs" by (simp add: d)
    have "xs ! j = 0 + real j * ((L p - 0) / real (length xs - 1))"
      by (rule linspace_nth[OF xs jl lx])
    then have "xs ! j = real j * (L p / (real_of_int ?n - 1))" unfolding rl by simp
    then show ?thesis using dx n by (simp add: d)
  qed
  show "t_array d ! l = real l * dt d" if "l < length (t_array d)" for l
    using arange_nth[OF ts, of l] that dt by (simp add: d)
qed

lemma linspace_total: "0 \<le> n \<Longrightarrow> \<exists>xs. linspace a b n = Inr xs \<and> length xs = nat n"
  by (auto simp: linspace_def Let_def)

lemma arange_total: "s \<noteq> 0 \<Longrightarrow> \<exists>ts. arange a b s = Inr ts \<and> length ts = nat \<lceil>(b - a) / s\<rceil>"
  by (simp add: arange_def)

lemma constants_cell_succeeds:
  assumes fps: "fps_play p \<noteq> 0" and cc: "c p \<noteq> 0"
    and n2: "2 \<le> py_int (L p / (c p / fps_play p))"
    and t2: "2 \<le> \<lceil>t_total p * fps_play p\<rceil>"
  shows "\<exists>d. constants_cell p = Inr d"
proof -
  let ?n = "py_int (L p / (c p / fps_play p))"
  from n2 obtain xs where xs: "linspace 0 (L p) ?n = Inr xs" and lx: "length xs = nat ?n"
    using linspace_total[of ?n 0 "L p"] by auto
  from fps obtain ts where ts: "arange 0 (t_total p) (1 / fps_play p) = Inr ts"
    and lt: "length ts = nat \<lceil>(t_total p - 0) / (1 / fps_play p)\<rceil>"
    using arange_total[of "1 / fps_play p" 0 "t_total p"] by auto
  have "2 \<le> length xs" using lx n2 by linarith
  moreover have "length ts = nat \<lceil>t_total p * fps_play p\<rceil>" using lt by simp
  then have "2 \<le> length ts" using t2 by linarith
  ultimately show ?thesis
    using fps cc xs ts by (simp add: constants_cell_def Let_def)
qed

lemma constants_cell_fails:
  assumes "fps_play p = 0 \<or> c p = 0 \<or> py_int (L p / (c p / fps_play p)) < 2
             \<or> \<lceil>t_total p * fps_play p\<rceil> < 2"
  shows "constants_cell p = Inl ZeroDivisionError \<or> constants_cell p = Inl ValueError
           \<or> constants_cell p = Inl IndexError"
proof (cases "constants_cell p")
  case (Inl e)
  then show ?thesis
    by (cases e) (auto simp: constants_cell_def linspace_def arange_def Let_def
        split: if_splits sum.splits)
next
  case (Inr d)
  have "2 \<le> \<lceil>t_total p * fps_play p\<rceil>"
    using constants_cell_Inr(6,7)[OF Inr] by linarith
  with constants_cell_Inr(1-4)[OF Inr] assms show ?thesis by auto
qed

text \<open>The constants cell on the example parameters.\<close>

lemma constants_cell_example: "constants_cell ex_params = Inr ex_discretization"
  by code_simp

subsection \<open>The CFL condition\<close>

text \<open>
  With \<open>nx\<close> samples \<^verbatim>\<open>linspace\<close> makes \<open>nx - 1\<close> intervals, so the Courant
  number is \<open>(nx - 1) / (L / (c / fps_play))\<close>, and \<open>nx\<close> is that quotient rounded
  down: for positive parameters the number stays strictly below 1.
\<close>

lemma courant_eq:
  assumes "constants_cell p = Inr d"
  shows "courant p d = (real_of_int (nx d) - 1) / (L p / (c p / fps_play p))"
  using constants_cell_Inr(1,2,8,9)[OF assms] by (simp add: courant_def mult.commute)

lemma courant_below_one:
  assumes ok: "constants_cell p = Inr d" and "0 < L p" and "0 < c p" and "0 < fps_play p"
  shows "courant p d < 1"
proof -
  let ?x = "L p / (c p / fps_play p)"
  have x: "0 < ?x" using assms(2-4) by simp
  have "nx d = \<lfloor>?x\<rfloor>" using constants_cell_Inr(3)[OF ok] x by (simp add: py_int_def)
  then have "real_of_int (nx d) \<le> ?x" by simp
  then have "real_of_int (nx d) - 1 < ?x" by linarith
  then have "(real_of_int (nx d) - 1) / ?x < 1" using x by (simp only: divide_less_eq_1_pos)
  then show ?thesis by (simp only: courant_eq[OF ok])
qed

text \<open>
  Claim C1: for valid parameters the discretization \<open>dt = 1 / fps\<close>,
  \<open>nx = floor (L / (c / fps))\<close>, \<open>dx = L / (nx - 1)\<close> satisfies \<open>c * dt / dx = 1\<close>
  exactly. The code does not achieve this: at the notebook's own constants
  (\<open>L = 3\<close>, \<open>c = 1\<close>, \<open>fps_play = 30\<close>) the constants cell succeeds with
  \<open>nx = 90\<close>, \<open>dt = 1 / 30\<close> and \<open>dx = 3 / 89\<close>, and the Courant number is
  \<open>89 / 90\<close>.
\<close>

theorem notebook_courant:
  "map_sum id (courant notebook_params) (constants_cell notebook_params) = Inr (89 / 90)"
proof -
  have n: "py_int (L notebook_params / (c notebook_params / fps_play notebook_params)) = 90"
    by (simp add: notebook_params_def py_int_def)
  have a: "fps_play notebook_params \<noteq> 0" and b: "c notebook_params \<noteq> 0"
    and t: "2 \<le> \<lceil>t_total notebook_params * fps_play notebook_params\<rceil>"
    by (simp_all add: notebook_params_def)
  have "2 \<le> py_int (L notebook_params / (c notebook_params / fps_play notebook_params))"
    by (simp only: n)
  then have "\<exists>d. constants_cell notebook_params = Inr d"
    using a b t by (intro constants_cell_succeeds)
  then obtain d where d: "constants_cell notebook_params = Inr d" ..
  have "nx d = 90" using constants_cell_Inr(3)[OF d] n by simp
  then have "courant notebook_params d = 89 / 90"
    by (simp add: courant_eq[OF d]) (simp add: notebook_params_def)
  then show ?thesis by (simp add: d)
qed

subsection \<open>Failure of the constants cell\<close>

lemma run_constants_error: "constants_cell p = Inl e \<Longrightarrow> run p f g phi = Inl e"
  by (simp add: run_def)

text \<open>
  The cell checks nothing itself. What makes it fail is the division by a zero
  \<open>fps_play\<close> or a zero \<open>c / fps_play\<close>, a negative number of samples, and the
  read of a second element that is not there. In terms of the inputs this is decided by
  signs: the quotient \<open>L / (c / fps_play)\<close> has the sign of \<open>L * c * fps_play\<close>, and
  the number of time instants is positive only if \<open>t_total * fps_play\<close> is. Signs are
  not touched by the rounding of doubles, and neither is a statement about the
  discretization that the cell returns.
\<close>

lemma py_int_nonpos: "x \<le> 0 \<Longrightarrow> py_int x \<le> 0"
  by (auto simp: py_int_def intro: order_trans)

lemma quotient_sign:
  assumes "c p \<noteq> 0" and "L p * c p * fps_play p \<le> 0"
  shows "L p / (c p / fps_play p) \<le> 0"
proof -
  have "L p / (c p / fps_play p) = (L p * c p * fps_play p) / (c p)\<^sup>2"
    using assms(1) by (simp add: power2_eq_square)
  also have "\<dots> \<le> 0"
    using assms(2) by (rule divide_nonpos_nonneg) simp
  finally show ?thesis .
qed

text \<open>
  Claim C6, as amended: the constants cell has no error of its own for a bad
  configuration; it fails with whatever the arithmetic and the array library raise, and
  the run then fails with the same error without producing a grid. This happens whenever
  \<open>L * c * fps_play \<le> 0\<close> (one of them is zero, or an odd number of them is negative)
  or \<open>t_total * fps_play \<le> 0\<close> (one of them is zero, or they have opposite signs),
  which covers every \<open>L \<le> 0\<close> and every \<open>t_total \<le> 0\<close> with positive \<open>c\<close> and
  \<open>fps_play\<close>; the error is ZeroDivisionError when \<open>fps_play = 0\<close> or \<open>c = 0\<close>.
  And a discretization that the cell returns has \<open>nx \<ge> 2\<close> spatial points and at
  least two time instants: a derived \<open>nx\<close> below 2 never passes.
\<close>

theorem constants_cell_failure:
  "(L p * c p * fps_play p \<le> 0 \<or> t_total p * fps_play p \<le> 0 \<longrightarrow>
      (\<exists>e. constants_cell p = Inl e \<and> run p f g phi = Inl e))
   \<and> (fps_play p = 0 \<or> c p = 0 \<longrightarrow>
        constants_cell p = Inl ZeroDivisionError \<and> run p f g phi = Inl ZeroDivisionError)
   \<and> (\<forall>d. constants_cell p = Inr d \<longrightarrow>
        2 \<le> nx d \<and> length (x_array d) = nat (nx d) \<and> 2 \<le> length (t_array d))"
proof (intro conjI impI allI)
  assume h: "L p * c p * fps_play p \<le> 0 \<or> t_total p * fps_play p \<le> 0"
  have "fps_play p = 0 \<or> c p = 0 \<or> py_int (L p / (c p / fps_play p)) < 2
          \<or> \<lceil>t_total p * fps_play p\<rceil> < 2"
  proof (cases "c p = 0")
    case True
    then show ?thesis by simp
  next
    case False
    from h show ?thesis
    proof
      assume "L p * c p * fps_play p \<le> 0"
      then have "py_int (L p / (c p / fps_play p)) \<le> 0"
        by (intro py_int_nonpos quotient_sign False)
      then show ?thesis by linarith
    next
      assume "t_total p * fps_play p \<le> 0"
      then have "\<lceil>t_total p * fps_play p\<rceil> \<le> 0" by (simp add: ceiling_le_iff)
      then show ?thesis by linarith
    qed
  qed
  from constants_cell_fails[OF this]
  show "\<exists>e. constants_cell p = Inl e \<and> run p f g phi = Inl e"
    by (auto simp: run_constants_error)
next
  assume "fps_play p = 0 \<or> c p = 0"
  then have "constants_cell p = Inl ZeroDivisionError"
    by (auto simp: constants_cell_def)
  then show "constants_cell p = Inl ZeroDivisionError" and "run p f g phi = Inl ZeroDivisionError"
    by (simp_all add: run_constants_error)
next
  fix d assume d: "constants_cell p = Inr d"
  show "2 \<le> nx d" by (rule constants_cell_Inr(4)[OF d])
  show "length (x_array d) = nat (nx d)" by (rule constants_cell_Inr(5)[OF d])
  show "2 \<le> length (t_array d)" by (rule constants_cell_Inr(7)[OF d])
qed

text \<open>
  The amended claim C6 on a negative \<open>L\<close> with positive \<open>c\<close> and \<open>fps_play\<close>, on
  a zero \<open>c\<close>, and on the example parameters, which pass.
\<close>

theorem constants_cell_failure_witness:
  "L negative_params * c negative_params * fps_play negative_params \<le> 0
   \<and> (\<exists>e. constants_cell negative_params = Inl e \<and> run negative_params sin cos exp = Inl e)
   \<and> c still_params = 0
   \<and> constants_cell still_params = Inl ZeroDivisionError
   \<and> run still_params sin cos exp = Inl ZeroDivisionError
   \<and> constants_cell ex_params = Inr ex_discretization
   \<and> 2 \<le> nx ex_discretization
   \<and> length (x_array ex_discretization) = nat (nx ex_discretization)
   \<and> 2 \<le> length (t_array ex_discretization)"
proof -
  have a: "L negative_params * c negative_params * fps_play negative_params \<le> 0"
    by (simp add: negative_params_def)
  have b: "c still_params = 0" by (simp add: still_params_def)
  from a b constants_cell_example
    constants_cell_failure[of negative_params sin cos exp]
    constants_cell_failure[of still_params sin cos exp]
    constants_cell_failure[of ex_params sin cos exp]
  show ?thesis by blast
qed

text \<open>
  Claim C6 as stated asks for a failure whenever the derived \<open>nx\<close> is less than 3 or one
  of \<open>L\<close>, \<open>c\<close>, \<open>T\<close>, \<open>fps\<close> is not strictly positive. The cell succeeds with
  \<open>nx = 2\<close> on \<open>L = 2\<close>, \<open>c = 1\<close>, \<open>fps_play = 1\<close>, and it succeeds on the three
  inputs with negative parameters whose signs cancel.
\<close>

theorem unchecked_parameters_accepted:
  "constants_cell coarse_params =
     Inr \<lparr>nx = 2, x_array = [0, 2], t_array = [0, 1], dx = 2, dt = 1\<rparr>
   \<and> constants_cell mirrored_params =
     Inr \<lparr>nx = 3, x_array = [0, - (3 / 2), - 3], t_array = [0, 1, 2, 3],
          dx = - (3 / 2), dt = 1\<rparr>
   \<and> constants_cell reversed_params =
     Inr \<lparr>nx = 3, x_array = [0, 3 / 2, 3], t_array = [0, - 1, - 2, - 3],
          dx = 3 / 2, dt = - 1\<rparr>
   \<and> constants_cell reversed_mirrored_params =
     Inr \<lparr>nx = 3, x_array = [0, - (3 / 2), - 3], t_array = [0, - 1, - 2, - 3],
          dx = - (3 / 2), dt = - 1\<rparr>"
  by code_simp

subsection \<open>Grids and the condition cell\<close>

lemma shape_length: "shape n m u \<Longrightarrow> length u = n"
  by (simp add: shape_def)

lemma shape_nth: "shape n m u \<Longrightarrow> j < n \<Longrightarrow> length (u ! j) = m"
  by (simp add: shape_def list_all_length)

lemma shapeI: "length u = n \<Longrightarrow> (\<And>j. j < n \<Longrightarrow> length (u ! j) = m) \<Longrightarrow> shape n m u"
  by (simp add: shape_def list_all_length)

lemma shape_zeros: "shape n m (zeros n m)"
  by (simp add: shape_def zeros_def list_all_length)

lemma zeros_nth: "j < n \<Longrightarrow> q < m \<Longrightarrow> zeros n m ! j ! q = 0"
  by (simp add: zeros_def)

lemma set_col_Inr:
  assumes "shape n m u" and "length v = n" and "l < m"
  shows "\<exists>u'. set_col l v u = Inr u' \<and> shape n m u'
           \<and> (\<forall>j<n. \<forall>q<m. u' ! j ! q = (if q = l then v ! j else u ! j ! q))"
proof -
  let ?u' = "map (\<lambda>(row, x). row[l := x]) (zip u v)"
  have len: "length u = n" and rows: "\<And>j. j < n \<Longrightarrow> length (u ! j) = m"
    using assms(1) by (simp_all add: shape_length shape_nth)
  have "list_all (\<lambda>row. l < length row) u"
    using len rows assms(3) by (simp add: list_all_length)
  then have "set_col l v u = Inr ?u'" by (simp add: set_col_def)
  moreover have "shape n m ?u'"
    using len rows assms(2) by (intro shapeI) simp_all
  moreover have "?u' ! j ! q = (if q = l then v ! j else u ! j ! q)" if "j < n" "q < m" for j q
    using that len rows[of j] assms(2,3) by (simp add: nth_list_update)
  ultimately show ?thesis by blast
qed

lemma set_row_Inr:
  assumes "shape n m u" and "length v = m" and "j0 < n"
  shows "\<exists>u'. set_row j0 v u = Inr u' \<and> shape n m u'
           \<and> (\<forall>j<n. \<forall>q<m. u' ! j ! q = (if j = j0 then v ! q else u ! j ! q))"
proof -
  have len: "length u = n" and rows: "\<And>j. j < n \<Longrightarrow> length (u ! j) = m"
    using assms(1) by (simp_all add: shape_length shape_nth)
  have "set_row j0 v u = Inr (u[j0 := v])" using len assms(3) by (simp add: set_row_def)
  moreover have "shape n m (u[j0 := v])"
    using len rows assms(2,3) by (intro shapeI) (auto simp: nth_list_update)
  moreover have "u[j0 := v] ! j ! q = (if j = j0 then v ! q else u ! j ! q)" if "j < n" for j q
    using that len by (simp add: nth_list_update)
  ultimately show ?thesis by blast
qed

lemma conditions_cell_Inr:
  assumes n: "length (x_array d) = n" and n1: "1 \<le> n"
    and m: "length (t_array d) = m" and m2: "2 \<le> m"
  shows "\<exists>u0. conditions_cell f g phi d = Inr u0 \<and> shape n m u0
           \<and> (\<forall>j<n. \<forall>q<m. u0 ! j ! q =
                 (if j = 0 then phi (t_array d ! q)
                  else if q = 0 then f (x_array d ! j)
                  else if q = 1 then g (x_array d ! j) * dt d + f (x_array d ! j)
                  else 0))"
proof -
  let ?v1 = "map f (x_array d)"
  let ?v2 = "vadd (muls (map g (x_array d)) (dt d)) (map f (x_array d))"
  let ?v3 = "map phi (t_array d)"
  have l1: "length ?v1 = n" and l2: "length ?v2 = n" and l3: "length ?v3 = m"
    using n m by (simp_all add: vadd_def muls_def)
  have v2: "?v2 ! j = g (x_array d ! j) * dt d + f (x_array d ! j)" if "j < n" for j
    using that n by (simp add: vadd_def muls_def)
  have c0: "0 < m" and c1: "1 < m" and r0: "0 < n" using m2 n1 by linarith+
  from set_col_Inr[OF shape_zeros l1 c0] obtain u1 where
    u1: "set_col 0 ?v1 (zeros n m) = Inr u1" and s1: "shape n m u1"
    and e1: "\<And>j q. j < n \<Longrightarrow> q < m \<Longrightarrow> u1 ! j ! q = (if q = 0 then ?v1 ! j else zeros n m ! j ! q)"
    by blast
  from set_col_Inr[OF s1 l2 c1] obtain u2 where
    u2: "set_col 1 ?v2 u1 = Inr u2" and s2: "shape n m u2"
    and e2: "\<And>j q. j < n \<Longrightarrow> q < m \<Longrightarrow> u2 ! j ! q = (if q = 1 then ?v2 ! j else u1 ! j ! q)"
    by blast
  from set_row_Inr[OF s2 l3 r0] obtain u3 where
    u3: "set_row 0 ?v3 u2 = Inr u3" and s3: "shape n m u3"
    and e3: "\<And>j q. j < n \<Longrightarrow> q < m \<Longrightarrow> u3 ! j ! q = (if j = 0 then ?v3 ! q else u2 ! j ! q)"
    by blast
  have "conditions_cell f g phi d = Inr u3"
    using u1 u2 u3 n m by (simp add: conditions_cell_def)
  moreover have "u3 ! j ! q =
                 (if j = 0 then phi (t_array d ! q)
                  else if q = 0 then f (x_array d ! j)
                  else if q = 1 then g (x_array d ! j) * dt d + f (x_array d ! j)
                  else 0)" if "j < n" "q < m" for j q
    using that n m by (simp add: e3 e2 e1 v2 zeros_nth)
  ultimately show ?thesis using s3 by blast
qed

subsection \<open>One pass of the loop\<close>

lemma length_update_rhs: "length (update_rhs a b e u l) = length u - 2"
  by (simp add: update_rhs_def Let_def vadd_def vsub_def smul_def col_def)

lemma update_rhs_nth:
  assumes "i + 2 < length u"
  shows "update_rhs a b e u l ! i =
           a * (b * (u ! (i + 2) ! l - 2 * u ! (i + 1) ! l + u ! i ! l)
                + 2 * u ! (i + 1) ! l - u ! (i + 1) ! (l - 1) + e * u ! (i + 1) ! (l - 1))"
  using assms
  by (simp add: update_rhs_def Let_def vadd_def vsub_def smul_def col_def)

lemma length_step: "length (step a b e l u) = length u"
  by (simp add: step_def set_interior_col_def)

lemma step_row:
  assumes "j < length u"
  shows "step a b e l u ! j =
           (if 1 \<le> j \<and> j + 1 < length u
            then (u ! j)[l + 1 := update_rhs a b e u l ! (j - 1)] else u ! j)"
  using assms by (simp add: step_def set_interior_col_def)

lemma shape_step: "shape n m u \<Longrightarrow> shape n m (step a b e l u)"
  by (intro shapeI) (auto simp: length_step step_row shape_length shape_nth)

lemma step_other:
  assumes "j < length u" and "\<not> (1 \<le> j \<and> j + 1 < length u \<and> q = l + 1)"
  shows "step a b e l u ! j ! q = u ! j ! q"
  using assms by (auto simp: step_row)

lemma step_interior:
  assumes "shape n m u" and "1 \<le> j" and "j + 1 < n" and "l + 1 < m"
  shows "step a b e l u ! j ! (l + 1) =
           a * (b * (u ! (j + 1) ! l - 2 * u ! j ! l + u ! (j - 1) ! l)
                + 2 * u ! j ! l - u ! j ! (l - 1) + e * u ! j ! (l - 1))"
proof -
  have len: "length u = n" and row: "length (u ! j) = m"
    using assms by (simp_all add: shape_length shape_nth)
  have "(j - 1) + 2 < length u" using assms(2,3) len by simp
  from update_rhs_nth[OF this, of a b e l] assms(2)
  have "update_rhs a b e u l ! (j - 1) =
           a * (b * (u ! (j + 1) ! l - 2 * u ! j ! l + u ! (j - 1) ! l)
                + 2 * u ! j ! l - u ! j ! (l - 1) + e * u ! j ! (l - 1))"
    by simp
  then show ?thesis
    using assms(2-4) len row by (simp add: step_row)
qed

subsection \<open>The loop\<close>

text \<open>
  The pass with index \<open>l\<close> writes column \<open>l + 1\<close> only, so after the passes
  \<open>1, \<dots>, m - 1\<close> the columns up to \<open>m\<close> have their final values.
\<close>

lemma evolve_start: "m \<le> 1 \<Longrightarrow> evolve a b e m u = u"
  by (simp add: evolve_def)

lemma evolve_Suc: "1 \<le> m \<Longrightarrow> evolve a b e (Suc m) u = step a b e m (evolve a b e m u)"
  by (simp add: evolve_def)

lemma shape_evolve: "shape n nt u \<Longrightarrow> shape n nt (evolve a b e m u)"
proof (induction m)
  case 0
  then show ?case by (simp add: evolve_start)
next
  case (Suc m)
  show ?case
  proof (cases "1 \<le> m")
    case True
    then show ?thesis using Suc by (simp add: evolve_Suc shape_step)
  next
    case False
    then show ?thesis using Suc.prems by (simp add: evolve_start)
  qed
qed

lemma evolve_settled:
  assumes "shape n nt u" and "j < n" and "q \<le> m" and "m \<le> m'"
  shows "evolve a b e m' u ! j ! q = evolve a b e m u ! j ! q"
  using assms(4)
proof (induction m' rule: dec_induct)
  case base
  show ?case by simp
next
  case (step i)
  show ?case
  proof (cases "1 \<le> i")
    case True
    have "length (evolve a b e i u) = n"
      by (rule shape_length[OF shape_evolve[OF assms(1)]])
    then have "step a b e i (evolve a b e i u) ! j ! q = evolve a b e i u ! j ! q"
      using assms(2,3) step(1) by (intro step_other) simp_all
    then show ?thesis using True step by (simp add: evolve_Suc)
  next
    case False
    then have "m = 0" and "i = 0" using step(1) by simp_all
    then show ?thesis by (simp add: evolve_start)
  qed
qed

lemma evolve_boundary:
  assumes "shape n nt u" and "j < n" and "j = 0 \<or> j + 1 = n"
  shows "evolve a b e m u ! j = u ! j"
proof (induction m)
  case 0
  show ?case by (simp add: evolve_start)
next
  case (Suc m)
  show ?case
  proof (cases "1 \<le> m")
    case True
    have "length (evolve a b e m u) = n"
      by (rule shape_length[OF shape_evolve[OF assms(1)]])
    then have "step a b e m (evolve a b e m u) ! j = evolve a b e m u ! j"
      using assms(2,3) by (auto simp: step_row)
    then show ?thesis using True Suc by (simp add: evolve_Suc)
  next
    case False
    then show ?thesis by (simp add: evolve_start)
  qed
qed

lemma evolve_seeded:
  assumes "shape n nt u" and "j < n" and "q \<le> 1"
  shows "evolve a b e m u ! j ! q = u ! j ! q"
proof (cases "1 \<le> m")
  case True
  have "evolve a b e m u ! j ! q = evolve a b e 1 u ! j ! q"
    by (rule evolve_settled[OF assms True])
  then show ?thesis by (simp add: evolve_start)
next
  case False
  then show ?thesis by (simp add: evolve_start)
qed

lemma evolve_recurrence:
  assumes sh: "shape n nt u" and j: "1 \<le> j" "j + 1 < n" and l: "1 \<le> l" "l + 1 < nt"
    and m: "l + 1 \<le> m"
  shows "evolve a b e m u ! j ! (l + 1) =
           a * (b * (evolve a b e m u ! (j + 1) ! l - 2 * evolve a b e m u ! j ! l
                      + evolve a b e m u ! (j - 1) ! l)
                + 2 * evolve a b e m u ! j ! l - evolve a b e m u ! j ! (l - 1)
                + e * evolve a b e m u ! j ! (l - 1))"
proof -
  let ?w = "evolve a b e l u"
  have lm: "l \<le> m" and jn: "j < n" using m j by simp_all
  have old: "evolve a b e m u ! i ! q = ?w ! i ! q" if "i < n" "q \<le> l" for i q
    by (rule evolve_settled[OF sh that lm])
  have "evolve a b e m u ! j ! (l + 1) = evolve a b e (Suc l) u ! j ! (l + 1)"
    by (rule evolve_settled[OF sh jn]) (use m in simp_all)
  also have "\<dots> = step a b e l ?w ! j ! (l + 1)"
    using l(1) by (simp add: evolve_Suc)
  also have "\<dots> = a * (b * (?w ! (j + 1) ! l - 2 * ?w ! j ! l + ?w ! (j - 1) ! l)
                + 2 * ?w ! j ! l - ?w ! j ! (l - 1) + e * ?w ! j ! (l - 1))"
    using shape_evolve[OF sh] j l(2) by (rule step_interior)
  finally show ?thesis
    using j by (simp add: old)
qed

subsection \<open>Decomposing a successful run\<close>

lemma time_evolution_Inr:
  "time_evolution p d u0 = Inr u \<Longrightarrow>
     u = evolve (factor1 p d) (factor2 p d) (factor3 p d) (length (t_array d) - 1) u0"
  by (auto simp: time_evolution_def split: if_splits)

lemma conditions_cell_seeded:
  assumes c: "constants_cell p = Inr d" and u0: "conditions_cell f g phi d = Inr u0"
  shows "shape (length (x_array d)) (length (t_array d)) u0"
    and "\<And>j q. j < length (x_array d) \<Longrightarrow> q < length (t_array d) \<Longrightarrow>
           u0 ! j ! q =
             (if j = 0 then phi (t_array d ! q)
              else if q = 0 then f (x_array d ! j)
              else if q = 1 then g (x_array d ! j) * dt d + f (x_array d ! j)
              else 0)"
proof -
  have "2 \<le> length (x_array d)"
    using constants_cell_Inr(4,5)[OF c] by linarith
  then have n1: "1 \<le> length (x_array d)" by simp
  have m2: "2 \<le> length (t_array d)" by (rule constants_cell_Inr(7)[OF c])
  from conditions_cell_Inr[OF refl n1 refl m2, of f g phi] u0
  show "shape (length (x_array d)) (length (t_array d)) u0"
    and "\<And>j q. j < length (x_array d) \<Longrightarrow> q < length (t_array d) \<Longrightarrow>
           u0 ! j ! q =
             (if j = 0 then phi (t_array d ! q)
              else if q = 0 then f (x_array d ! j)
              else if q = 1 then g (x_array d ! j) * dt d + f (x_array d ! j)
              else 0)"
    by auto
qed

lemma run_Inr:
  assumes "run p f g phi = Inr (d, u)"
  shows "\<exists>u0. constants_cell p = Inr d \<and> conditions_cell f g phi d = Inr u0
           \<and> time_evolution p d u0 = Inr u"
  using assms by (auto simp: run_def split: sum.splits)

lemma run_seeded:
  assumes r: "run p f g phi = Inr (d, u)"
    and j: "j < length (x_array d)" and q: "q < length (t_array d)"
    and b: "j = 0 \<or> j + 1 = length (x_array d) \<or> q \<le> 1"
  shows "u ! j ! q =
           (if j = 0 then phi (t_array d ! q)
            else if q = 0 then f (x_array d ! j)
            else if q = 1 then g (x_array d ! j) * dt d + f (x_array d ! j)
            else 0)"
proof -
  from run_Inr[OF r] obtain u0 where c: "constants_cell p = Inr d"
    and u0: "conditions_cell f g phi d = Inr u0" and t: "time_evolution p d u0 = Inr u"
    by blast
  note sh = conditions_cell_seeded(1)[OF c u0]
  note u = time_evolution_Inr[OF t]
  have "u ! j ! q = u0 ! j ! q"
  proof (cases "q \<le> 1")
    case True
    show ?thesis unfolding u by (rule evolve_seeded[OF sh j True])
  next
    case False
    with b have "j = 0 \<or> j + 1 = length (x_array d)" by simp
    then have "u ! j = u0 ! j" unfolding u by (rule evolve_boundary[OF sh j])
    then show ?thesis by simp
  qed
  then show ?thesis by (simp only: conditions_cell_seeded(2)[OF c u0 j q])
qed

subsection \<open>The example run, evaluated\<close>

lemma conditions_cell_example:
  "conditions_cell ex_f ex_g ex_phi ex_discretization = Inr ex_initial"
  by code_simp

lemma time_evolution_example: "time_evolution ex_params ex_discretization ex_initial = Inr ex_grid"
  by code_simp

lemma run_example: "run ex_params ex_f ex_g ex_phi = Inr (ex_discretization, ex_grid)"
  by (simp add: run_def constants_cell_example conditions_cell_example time_evolution_example)

lemma run_example': "run ex_params ex_f ex_g ex_phi' = Inr (ex_discretization, ex_grid')"
  by code_simp

lemma run_zero_example: "run ex_params zero_fun zero_fun zero_fun = Inr (ex_discretization, zeros 3 4)"
  by code_simp

subsection \<open>Initial rows and boundary rows\<close>

text \<open>
  Claim C3 as stated includes \<open>j = 0\<close>. On the example run, with \<open>f x = x\<close> and
  \<open>phi t = 7 + t\<close>, the entry \<open>u[0, 0]\<close> is \<open>phi 0 = 7\<close>, not \<open>f 0 = 0\<close>:
  the boundary row is assigned after the two initial columns.
\<close>

theorem initial_rows_counterexample:
  "run ex_params ex_f ex_g ex_phi = Inr (ex_discretization, ex_grid)
   \<and> ex_grid ! 0 ! 0 \<noteq> ex_f (x_array ex_discretization ! 0)"
  by (simp add: run_example) (simp add: ex_grid_def ex_f_def ex_discretization_def)

text \<open>
  Claim C3, as amended: after the run, for every spatial index \<open>j\<close> with
  \<open>1 \<le> j \<le> nx - 1\<close>, \<open>u[j, 0] = f(x_j)\<close> and \<open>u[j, 1] = g(x_j) * dt + f(x_j)\<close>,
  for arbitrary \<open>f\<close>, \<open>g\<close>, \<open>phi\<close>.
\<close>

theorem initial_rows:
  assumes "run p f g phi = Inr (d, u)" and "1 \<le> j" and "j < length (x_array d)"
  shows "u ! j ! 0 = f (x_array d ! j)
         \<and> u ! j ! 1 = g (x_array d ! j) * dt d + f (x_array d ! j)"
proof -
  have m: "0 < length (t_array d)" "1 < length (t_array d)"
    using run_Inr[OF assms(1)] constants_cell_Inr(7) by fastforce+
  show ?thesis
    using run_seeded[OF assms(1,3) m(1)] run_seeded[OF assms(1,3) m(2)] assms(2) by simp
qed

text \<open>The amended claim C3 on the example run, at the last spatial index.\<close>

theorem initial_rows_witness:
  "run ex_params ex_f ex_g ex_phi = Inr (ex_discretization, ex_grid)
   \<and> (1::nat) \<le> 2 \<and> 2 < length (x_array ex_discretization)
   \<and> ex_grid ! 2 ! 0 = ex_f (x_array ex_discretization ! 2)
   \<and> ex_grid ! 2 ! 1 = ex_g (x_array ex_discretization ! 2) * dt ex_discretization
                             + ex_f (x_array ex_discretization ! 2)"
proof -
  have a: "(1::nat) \<le> 2" by simp
  have b: "2 < length (x_array ex_discretization)" by (simp add: ex_discretization_def)
  from initial_rows[OF run_example a b] run_example a b show ?thesis by blast
qed

text \<open>
  Claim C4 as stated says that \<open>u[nx - 1, l]\<close> is 0 for every \<open>l\<close> and that the last
  row is never written. On the example run \<open>u[nx - 1, 0] = f(x_{nx-1}) = 3\<close>: the
  assignments of the two initial columns cover the last row as well.
\<close>

theorem right_boundary_counterexample:
  "run ex_params ex_f ex_g ex_phi = Inr (ex_discretization, ex_grid)
   \<and> ex_grid ! (length (x_array ex_discretization) - 1) ! 0 \<noteq> 0"
  by (simp add: run_example) (simp add: ex_grid_def ex_discretization_def)

text \<open>
  Claim C4, as amended: after the run, \<open>u[nx - 1, l] = 0\<close> for every time index
  \<open>l \<ge> 2\<close>, while \<open>u[nx - 1, 0] = f(x_{nx-1})\<close> and
  \<open>u[nx - 1, 1] = g(x_{nx-1}) * dt + f(x_{nx-1})\<close>; the time-evolution loop never
  writes this row.
\<close>

theorem right_boundary:
  assumes "run p f g phi = Inr (d, u)" and "l < length (t_array d)"
  shows "u ! (length (x_array d) - 1) ! l =
           (if l = 0 then f (x_array d ! (length (x_array d) - 1))
            else if l = 1 then g (x_array d ! (length (x_array d) - 1)) * dt d
                                 + f (x_array d ! (length (x_array d) - 1))
            else 0)"
proof -
  have n: "2 \<le> length (x_array d)"
    using run_Inr[OF assms(1)] constants_cell_Inr(4,5) by fastforce
  then have j: "length (x_array d) - 1 < length (x_array d)"
    and b: "length (x_array d) - 1 + 1 = length (x_array d)" by simp_all
  from n have "length (x_array d) - 1 \<noteq> 0" by simp
  with run_seeded[OF assms(1) j assms(2), of ] b show ?thesis by simp
qed

text \<open>The amended claim C4 on the example run, at time index 2.\<close>

theorem right_boundary_witness:
  "run ex_params ex_f ex_g ex_phi = Inr (ex_discretization, ex_grid)
   \<and> 2 < length (t_array ex_discretization)
   \<and> ex_grid ! (length (x_array ex_discretization) - 1) ! 2 = 0"
proof -
  have a: "2 < length (t_array ex_discretization)" by (simp add: ex_discretization_def)
  from right_boundary[OF run_example a] run_example a show ?thesis by simp
qed

text \<open>
  Claim C5: after the run, \<open>u[0, l] = phi(t_l)\<close> for every time index \<open>l\<close>; the row
  \<open>j = 0\<close> is the image of the time axis under \<open>phi\<close> when the condition cell is
  done, and the time-evolution loop leaves it as it is.
\<close>

theorem left_boundary:
  assumes "run p f g phi = Inr (d, u)" and "l < length (t_array d)"
  shows "u ! 0 ! l = phi (t_array d ! l)
         \<and> (\<exists>u0. conditions_cell f g phi d = Inr u0 \<and> time_evolution p d u0 = Inr u
                  \<and> u0 ! 0 = map phi (t_array d) \<and> u ! 0 = u0 ! 0)"
proof -
  from run_Inr[OF assms(1)] obtain u0 where c: "constants_cell p = Inr d"
    and u0: "conditions_cell f g phi d = Inr u0" and t: "time_evolution p d u0 = Inr u"
    by blast
  note sh = conditions_cell_seeded(1)[OF c u0]
  have n: "0 < length (x_array d)"
    using constants_cell_Inr(4,5)[OF c] by linarith
  have row: "u ! 0 = u0 ! 0"
    unfolding time_evolution_Inr[OF t] by (rule evolve_boundary[OF sh n]) simp
  have "u0 ! 0 = map phi (t_array d)"
  proof (rule nth_equalityI)
    show "length (u0 ! 0) = length (map phi (t_array d))"
      using shape_nth[OF sh n] by simp
    show "u0 ! 0 ! i = map phi (t_array d) ! i" if "i < length (u0 ! 0)" for i
    proof -
      from that have i: "i < length (t_array d)" using shape_nth[OF sh n] by simp
      show ?thesis using conditions_cell_seeded(2)[OF c u0 n i] i by simp
    qed
  qed
  with row u0 t assms(2) show ?thesis by simp
qed

text \<open>Claim C5 on the example run, at the last time index.\<close>

theorem left_boundary_witness:
  "run ex_params ex_f ex_g ex_phi = Inr (ex_discretization, ex_grid)
   \<and> 3 < length (t_array ex_discretization)
   \<and> ex_grid ! 0 ! 3 = ex_phi (t_array ex_discretization ! 3)"
proof -
  have a: "3 < length (t_array ex_discretization)" by (simp add: ex_discretization_def)
  from left_boundary[OF run_example a] run_example a show ?thesis by blast
qed

text \<open>
  Claim C10: the corner entries are \<open>u[0, 0] = phi(t_0)\<close> and \<open>u[0, 1] = phi(t_1)\<close>
  for every choice of \<open>f\<close>, \<open>g\<close>, \<open>phi\<close>: the boundary assignment comes after the
  initial columns and wins at \<open>j = 0\<close>.
\<close>

theorem corner_entries:
  assumes "run p f g phi = Inr (d, u)"
  shows "u ! 0 ! 0 = phi (t_array d ! 0) \<and> u ! 0 ! 1 = phi (t_array d ! 1)"
proof -
  from run_Inr[OF assms] obtain c: "constants_cell p = Inr d" by blast
  have n: "0 < length (x_array d)"
    using constants_cell_Inr(4,5)[OF c] by linarith
  have m: "0 < length (t_array d)" "1 < length (t_array d)"
    using constants_cell_Inr(7)[OF c] by linarith+
  show ?thesis
    using run_seeded[OF assms n m(1)] run_seeded[OF assms n m(2)] by simp
qed

text \<open>
  Claim C10 on the example run, where \<open>phi(t_0) = 7\<close> differs from \<open>f(x_0) = 0\<close>.
\<close>

theorem corner_entries_witness:
  "run ex_params ex_f ex_g ex_phi = Inr (ex_discretization, ex_grid)
   \<and> ex_grid ! 0 ! 0 = ex_phi (t_array ex_discretization ! 0)
   \<and> ex_grid ! 0 ! 1 = ex_phi (t_array ex_discretization ! 1)
   \<and> ex_phi (t_array ex_discretization ! 0) \<noteq> ex_f (x_array ex_discretization ! 0)"
proof -
  have "ex_phi (t_array ex_discretization ! 0) \<noteq> ex_f (x_array ex_discretization ! 0)"
    by (simp add: ex_phi_def ex_f_def ex_discretization_def)
  with corner_entries[OF run_example] run_example show ?thesis by blast
qed

text \<open>
  Claim C9: two runs with the same parameters, \<open>f\<close> and \<open>g\<close> but different boundary
  functions have the same discretization and agree on \<open>u[j, 0]\<close> and \<open>u[j, 1]\<close> for
  every \<open>j > 0\<close>.
\<close>

theorem boundary_change_keeps_initial_rows:
  assumes "run p f g phi = Inr (d, u)" and "run p f g phi' = Inr (d', u')"
    and "0 < j" and "j < length (x_array d)"
  shows "d' = d \<and> u ! j ! 0 = u' ! j ! 0 \<and> u ! j ! 1 = u' ! j ! 1"
proof -
  from run_Inr[OF assms(1)] obtain c: "constants_cell p = Inr d" by blast
  from run_Inr[OF assms(2)] obtain c': "constants_cell p = Inr d'" by blast
  from c c' have d: "d' = d" by simp
  have m: "0 < length (t_array d)" "1 < length (t_array d)"
    using constants_cell_Inr(7)[OF c] by linarith+
  have "u ! j ! 0 = f (x_array d ! j)" "u ! j ! 1 = g (x_array d ! j) * dt d + f (x_array d ! j)"
    using run_seeded[OF assms(1,4) m(1)] run_seeded[OF assms(1,4) m(2)] assms(3) by simp_all
  moreover have "u' ! j ! 0 = f (x_array d ! j)"
    "u' ! j ! 1 = g (x_array d ! j) * dt d + f (x_array d ! j)"
    using run_seeded[OF assms(2)[unfolded d] assms(4) m(1)]
      run_seeded[OF assms(2)[unfolded d] assms(4) m(2)] assms(3) by simp_all
  ultimately show ?thesis using d by simp
qed

text \<open>
  Claim C9 on the example run and the run with the boundary function \<open>2 * t\<close>; the two
  grids differ at \<open>j = 0\<close>.
\<close>

theorem boundary_change_keeps_initial_rows_witness:
  "run ex_params ex_f ex_g ex_phi = Inr (ex_discretization, ex_grid)
   \<and> run ex_params ex_f ex_g ex_phi' = Inr (ex_discretization, ex_grid')
   \<and> (0::nat) < 1 \<and> 1 < length (x_array ex_discretization)
   \<and> ex_grid ! 1 ! 0 = ex_grid' ! 1 ! 0 \<and> ex_grid ! 1 ! 1 = ex_grid' ! 1 ! 1
   \<and> ex_grid ! 0 ! 0 \<noteq> ex_grid' ! 0 ! 0"
proof -
  have a: "(0::nat) < 1" by simp
  have b: "1 < length (x_array ex_discretization)" by (simp add: ex_discretization_def)
  have e: "ex_grid ! 0 ! 0 \<noteq> ex_grid' ! 0 ! 0" by (simp add: ex_grid_def ex_grid'_def)
  from boundary_change_keeps_initial_rows[OF run_example run_example' a b]
    run_example run_example' a b e
  show ?thesis by blast
qed

subsection \<open>The recurrence and the frame of the loop\<close>

text \<open>
  Claim C2: after the run, for every time index \<open>1 \<le> l \<le> nt - 2\<close> and every interior
  spatial index \<open>1 \<le> j \<le> nx - 2\<close>, the entry \<open>u[j, l + 1]\<close> is the value of the
  three-level formula on the final entries \<open>u[j - 1, l]\<close>, \<open>u[j, l]\<close>,
  \<open>u[j + 1, l]\<close> and \<open>u[j, l - 1]\<close>, with the factors \<open>1 / (1 + k * dt / 2)\<close>,
  \<open>(c * dt / dx)\<^sup>2\<close> and \<open>k * dt / 2\<close>, which depend on the parameters only.
\<close>

theorem interior_recurrence:
  assumes "run p f g phi = Inr (d, u)"
    and "1 \<le> l" and "l + 2 \<le> length (t_array d)"
    and "1 \<le> j" and "j + 2 \<le> length (x_array d)"
  shows "u ! j ! (l + 1) =
           1 / (1 + k p * dt d / 2)
           * ((c p * dt d / dx d)\<^sup>2 * (u ! (j + 1) ! l - 2 * u ! j ! l + u ! (j - 1) ! l)
              + 2 * u ! j ! l - u ! j ! (l - 1) + k p * dt d / 2 * u ! j ! (l - 1))"
proof -
  from run_Inr[OF assms(1)] obtain u0 where c: "constants_cell p = Inr d"
    and u0: "conditions_cell f g phi d = Inr u0" and t: "time_evolution p d u0 = Inr u"
    by blast
  note sh = conditions_cell_seeded(1)[OF c u0]
  have j: "j + 1 < length (x_array d)" and l: "l + 1 < length (t_array d)"
    and m: "l + 1 \<le> length (t_array d) - 1"
    using assms(3,5) by simp_all
  show ?thesis
    unfolding time_evolution_Inr[OF t]
    using evolve_recurrence[OF sh assms(4) j assms(2) l m,
        of "factor1 p d" "factor2 p d" "factor3 p d"]
    by (simp only: factor1_def factor2_def factor3_def)
qed

text \<open>Claim C2 on the example run, at \<open>j = 1\<close> and \<open>l = 2\<close>.\<close>

theorem interior_recurrence_witness:
  "run ex_params ex_f ex_g ex_phi = Inr (ex_discretization, ex_grid)
   \<and> (1::nat) \<le> 2 \<and> 2 + 2 \<le> length (t_array ex_discretization)
   \<and> (1::nat) \<le> 1 \<and> 1 + 2 \<le> length (x_array ex_discretization)
   \<and> ex_grid ! 1 ! (2 + 1) =
         1 / (1 + k ex_params * dt ex_discretization / 2)
         * ((c ex_params * dt ex_discretization / dx ex_discretization)\<^sup>2
              * (ex_grid ! (1 + 1) ! 2 - 2 * ex_grid ! 1 ! 2 + ex_grid ! (1 - 1) ! 2)
            + 2 * ex_grid ! 1 ! 2 - ex_grid ! 1 ! (2 - 1)
            + k ex_params * dt ex_discretization / 2 * ex_grid ! 1 ! (2 - 1))"
proof -
  have a: "(1::nat) \<le> 2" and b: "2 + 2 \<le> length (t_array ex_discretization)"
    and e: "(1::nat) \<le> 1" and h: "1 + 2 \<le> length (x_array ex_discretization)"
    by (simp_all add: ex_discretization_def)
  from interior_recurrence[OF run_example a b e h] run_example a b e h
  show ?thesis by blast
qed

text \<open>
  Claim C7: the time-evolution loop keeps the shape of the grid; every entry in the rows
  \<open>j = 0\<close> and \<open>j = nx - 1\<close> and in the columns \<open>l = 0\<close> and \<open>l = 1\<close> keeps
  the value the condition cell gave it; and an entry of column \<open>l\<close> has its final value
  as soon as the loop has run up to any \<open>m \<ge> l\<close>: later passes do not overwrite it.
\<close>

theorem stepper_frame:
  assumes "constants_cell p = Inr d" and "conditions_cell f g phi d = Inr u0"
    and "time_evolution p d u0 = Inr u"
    and "j < length (x_array d)" and "l < length (t_array d)"
  shows "length u = length u0 \<and> length (u ! j) = length (u0 ! j)
         \<and> (j = 0 \<or> j + 1 = length (x_array d) \<or> l \<le> 1 \<longrightarrow> u ! j ! l = u0 ! j ! l)
         \<and> (\<forall>m. l \<le> m \<and> m \<le> length (t_array d) - 1 \<longrightarrow>
                evolve (factor1 p d) (factor2 p d) (factor3 p d) m u0 ! j ! l = u ! j ! l)"
proof -
  note sh = conditions_cell_seeded(1)[OF assms(1,2)]
  note u = time_evolution_Inr[OF assms(3)]
  have sh': "shape (length (x_array d)) (length (t_array d)) u"
    unfolding u by (rule shape_evolve[OF sh])
  have lens: "length u = length u0 \<and> length (u ! j) = length (u0 ! j)"
    using shape_length[OF sh] shape_length[OF sh'] shape_nth[OF sh assms(4)]
      shape_nth[OF sh' assms(4)] by simp
  have kept: "u ! j ! l = u0 ! j ! l" if "j = 0 \<or> j + 1 = length (x_array d) \<or> l \<le> 1"
  proof (cases "l \<le> 1")
    case True
    show ?thesis unfolding u by (rule evolve_seeded[OF sh assms(4) True])
  next
    case False
    with that have "j = 0 \<or> j + 1 = length (x_array d)" by simp
    then have "u ! j = u0 ! j" unfolding u by (rule evolve_boundary[OF sh assms(4)])
    then show ?thesis by simp
  qed
  have settled: "evolve (factor1 p d) (factor2 p d) (factor3 p d) m u0 ! j ! l = u ! j ! l"
    if "l \<le> m" "m \<le> length (t_array d) - 1" for m
    unfolding u by (rule evolve_settled[OF sh assms(4) that, symmetric])
  from lens kept settled show ?thesis by blast
qed

text \<open>Claim C7 on the example run, at the last row and time index 2.\<close>

theorem stepper_frame_witness:
  "constants_cell ex_params = Inr ex_discretization
   \<and> conditions_cell ex_f ex_g ex_phi ex_discretization = Inr ex_initial
   \<and> time_evolution ex_params ex_discretization ex_initial = Inr ex_grid
   \<and> 2 < length (x_array ex_discretization) \<and> 2 < length (t_array ex_discretization)
   \<and> 2 + 1 = length (x_array ex_discretization)
   \<and> ex_grid ! 2 ! 2 = ex_initial ! 2 ! 2
   \<and> (2::nat) \<le> 2 \<and> 2 \<le> length (t_array ex_discretization) - 1
   \<and> evolve (factor1 ex_params ex_discretization) (factor2 ex_params ex_discretization)
         (factor3 ex_params ex_discretization) 2 ex_initial ! 2 ! 2 = ex_grid ! 2 ! 2"
proof -
  have a: "2 < length (x_array ex_discretization)"
    and b: "2 < length (t_array ex_discretization)"
    and e: "2 + 1 = length (x_array ex_discretization)"
    and h: "(2::nat) \<le> 2" and i: "2 \<le> length (t_array ex_discretization) - 1"
    by (simp_all add: ex_discretization_def)
  from stepper_frame[OF constants_cell_example conditions_cell_example time_evolution_example a b]
    constants_cell_example conditions_cell_example time_evolution_example a b e h i
  show ?thesis by blast
qed

subsection \<open>Zero input\<close>

lemma step_zero:
  assumes sh: "shape n m u" and z: "\<And>j q. j < n \<Longrightarrow> q < m \<Longrightarrow> u ! j ! q = 0"
    and l: "l + 1 < m" and j: "j < n" and q: "q < m"
  shows "step a b e l u ! j ! q = 0"
proof (cases "1 \<le> j \<and> j + 1 < n \<and> q = l + 1")
  case True
  then have "step a b e l u ! j ! q =
           a * (b * (u ! (j + 1) ! l - 2 * u ! j ! l + u ! (j - 1) ! l)
                + 2 * u ! j ! l - u ! j ! (l - 1) + e * u ! j ! (l - 1))"
    using step_interior[OF sh _ _ l, of j a b e] by simp
  moreover have "j + 1 < n" and "j - 1 < n" and "l < m" and "l - 1 < m"
    using True l j by linarith+
  then have "u ! (j + 1) ! l = 0" "u ! j ! l = 0" "u ! (j - 1) ! l = 0" "u ! j ! (l - 1) = 0"
    using j by (simp_all only: z)
  ultimately show ?thesis by simp
next
  case False
  then have "step a b e l u ! j ! q = u ! j ! q"
    using j shape_length[OF sh] by (intro step_other) simp_all
  then show ?thesis using z[OF j q] by simp
qed

lemma evolve_zero:
  assumes sh: "shape n m u" and z: "\<And>j q. j < n \<Longrightarrow> q < m \<Longrightarrow> u ! j ! q = 0"
    and i: "i \<le> m - 1" and j: "j < n" and q: "q < m"
  shows "evolve a b e i u ! j ! q = 0"
  using i j q
proof (induction i arbitrary: j q)
  case 0
  then show ?case by (simp add: evolve_start z)
next
  case (Suc i)
  show ?case
  proof (cases "1 \<le> i")
    case True
    have "step a b e i (evolve a b e i u) ! j ! q = 0"
    proof (rule step_zero[OF shape_evolve[OF sh]])
      show "evolve a b e i u ! j' ! q' = 0" if "j' < n" "q' < m" for j' q'
        using Suc.IH[OF _ that] Suc.prems(1) by simp
      show "i + 1 < m" using Suc.prems(1,3) by simp
    qed (rule Suc.prems)+
    then show ?thesis using True by (simp add: evolve_Suc)
  next
    case False
    then show ?thesis using Suc.prems by (simp add: evolve_start z)
  qed
qed

text \<open>
  Claim C8: when \<open>f\<close>, \<open>g\<close> and \<open>phi\<close> are identically zero, every entry of the
  grid is 0 after the run.
\<close>

theorem zero_input_zero_grid:
  assumes "run p zero_fun zero_fun zero_fun = Inr (d, u)"
    and "j < length (x_array d)" and "l < length (t_array d)"
  shows "u ! j ! l = 0"
proof -
  from run_Inr[OF assms(1)] obtain u0 where c: "constants_cell p = Inr d"
    and u0: "conditions_cell zero_fun zero_fun zero_fun d = Inr u0"
    and t: "time_evolution p d u0 = Inr u"
    by blast
  note sh = conditions_cell_seeded(1)[OF c u0]
  have z: "u0 ! j' ! q = 0" if "j' < length (x_array d)" "q < length (t_array d)" for j' q
    using conditions_cell_seeded(2)[OF c u0 that] by (simp add: zero_fun_def)
  show ?thesis
    unfolding time_evolution_Inr[OF t]
    by (rule evolve_zero[OF sh z _ assms(2,3)]) simp_all
qed

text \<open>Claim C8 on the example parameters.\<close>

theorem zero_input_zero_grid_witness:
  "run ex_params zero_fun zero_fun zero_fun = Inr (ex_discretization, zeros 3 4)
   \<and> 1 < length (x_array ex_discretization) \<and> 3 < length (t_array ex_discretization)
   \<and> zeros 3 4 ! 1 ! 3 = 0"
proof -
  have a: "1 < length (x_array ex_discretization)"
    and b: "3 < length (t_array ex_discretization)"
    by (simp_all add: ex_discretization_def)
  from zero_input_zero_grid[OF run_zero_example a b] run_zero_example a b
  show ?thesis by blast
qed

end
